theory Spec2Isabelle
  imports Main "HOL-Library.Word" "HOL-Library.Log_Nat" "HOL-Library.Multiset"
begin

section \<open>The Docker metrics collector of dex (collector.go)\<close>

text \<open>
  The theory embeds \<^verbatim>\<open>collector.go\<close>: \<^verbatim>\<open>Collect\<close>, \<^verbatim>\<open>processContainer\<close> and the five
  functions that derive metric points from a decoded \<^verbatim>\<open>types.StatsJSON\<close>. The Docker
  client is a parameter: its two calls are given by their results. Go's \<^verbatim>\<open>uint64\<close> is
  \<open>64 word\<close>, \<^verbatim>\<open>float64\<close> is the type \<open>float64\<close> below, a Go \<^verbatim>\<open>error\<close> is its message.
\<close>

subsection \<open>Machine numbers\<close>

type_synonym u64 = "64 word"

text \<open>
  A \<^verbatim>\<open>float64\<close> is a finite binary64 number (given by its rational value), an infinity
  or NaN. Negative zero is not represented: every \<^verbatim>\<open>float64\<close> of the collector is the
  conversion of a \<^verbatim>\<open>uint64\<close>, one of the constants \<^verbatim>\<open>100.0\<close> and \<^verbatim>\<open>1e9\<close>, or a quotient or
  product of such values, and none of these is negative.
\<close>

datatype float64 = Finite rat | PosInf | NegInf | NaN

definition pow2 :: "int \<Rightarrow> rat" where
  "pow2 k = (if 0 \<le> k then 2 ^ nat k else 1 / 2 ^ nat (- k))"

text \<open>\<open>ilog2 q\<close> is the integer part of the binary logarithm of a positive rational.\<close>

definition ilog2 :: "rat \<Rightarrow> int" where
  "ilog2 q = (if 1 \<le> q then bitlen \<lfloor>q\<rfloor> - 1 else - bitlen (\<lceil>1 / q\<rceil> - 1))"

definition round_half_even :: "rat \<Rightarrow> int" where
  "round_half_even q =
     (let f = \<lfloor>q\<rfloor>; d = q - of_int f
      in if d < 1 / 2 then f
         else if 1 / 2 < d then f + 1
         else if even f then f else f + 1)"

text \<open>
  Rounding of a positive rational to binary64, to nearest, ties to even: a significand
  of 53 bits, the smallest exponent that of the subnormal numbers (\<open>2 ^ - 1074\<close>), and
  an infinity from \<open>2 ^ 1024\<close> on.
\<close>

definition round64_pos :: "rat \<Rightarrow> float64" where
  "round64_pos q =
     (let e = max (ilog2 q - 52) (- 1074);
          r = of_int (round_half_even (q / pow2 e)) * pow2 e
      in if pow2 1024 \<le> r then PosInf else Finite r)"

fun f64_neg :: "float64 \<Rightarrow> float64" where
  "f64_neg (Finite q) = Finite (- q)"
| "f64_neg PosInf = NegInf"
| "f64_neg NegInf = PosInf"
| "f64_neg NaN = NaN"

definition round64 :: "rat \<Rightarrow> float64" where
  "round64 q =
     (if q = 0 then Finite 0
      else if q < 0 then f64_neg (round64_pos (- q))
      else round64_pos q)"

text \<open>The conversion \<^verbatim>\<open>float64(x)\<close> of a \<^verbatim>\<open>uint64\<close>.\<close>

definition f64_of_u64 :: "u64 \<Rightarrow> float64" where
  "f64_of_u64 w = round64 (of_int (uint w))"

text \<open>
  Division and multiplication of \<^verbatim>\<open>float64\<close>. A division by zero is no run-time panic
  in Go: zero by zero is NaN, anything else by zero is an infinity.
\<close>

fun f64_div :: "float64 \<Rightarrow> float64 \<Rightarrow> float64" where
  "f64_div NaN y = NaN"
| "f64_div x NaN = NaN"
| "f64_div (Finite a) (Finite b) =
     (if b = 0 then (if a = 0 then NaN else if 0 < a then PosInf else NegInf)
      else round64 (a / b))"
| "f64_div (Finite a) PosInf = Finite 0"
| "f64_div (Finite a) NegInf = Finite 0"
| "f64_div PosInf (Finite b) = (if 0 \<le> b then PosInf else NegInf)"
| "f64_div NegInf (Finite b) = (if 0 \<le> b then NegInf else PosInf)"
| "f64_div x y = NaN"

fun f64_mul :: "float64 \<Rightarrow> float64 \<Rightarrow> float64" where
  "f64_mul NaN y = NaN"
| "f64_mul x NaN = NaN"
| "f64_mul (Finite a) (Finite b) = round64 (a * b)"
| "f64_mul (Finite a) PosInf = (if a = 0 then NaN else if 0 < a then PosInf else NegInf)"
| "f64_mul (Finite a) NegInf = (if a = 0 then NaN else if 0 < a then NegInf else PosInf)"
| "f64_mul PosInf (Finite b) = (if b = 0 then NaN else if 0 < b then PosInf else NegInf)"
| "f64_mul NegInf (Finite b) = (if b = 0 then NaN else if 0 < b then NegInf else PosInf)"
| "f64_mul PosInf PosInf = PosInf"
| "f64_mul NegInf NegInf = PosInf"
| "f64_mul x y = NegInf"

subsection \<open>Strings\<close>

text \<open>\<^verbatim>\<open>strings.Join\<close> and \<^verbatim>\<open>strings.TrimPrefix\<close>.\<close>

fun Join :: "string list \<Rightarrow> string \<Rightarrow> string" where
  "Join [] sep = []"
| "Join [x] sep = x"
| "Join (x # y # ys) sep = x @ sep @ Join (y # ys) sep"

definition TrimPrefix :: "string \<Rightarrow> string \<Rightarrow> string" where
  "TrimPrefix s p = (if take (length p) s = p then drop (length p) s else s)"

text \<open>
  \<^verbatim>\<open>strings.EqualFold\<close> compares under Unicode simple case folding. The collector calls
  it with the second argument \<^verbatim>\<open>"read"\<close> or \<^verbatim>\<open>"write"\<close> only; the letters of these words fold
  with their ASCII capitals and with no other code point, so that on these calls it is
  the equality of the two byte strings after the ASCII capitals are lowered.
\<close>

definition toLower :: "char \<Rightarrow> char" where
  "toLower c =
     (case map_of (zip ''ABCDEFGHIJKLMNOPQRSTUVWXYZ'' ''abcdefghijklmnopqrstuvwxyz'') c of
        Some l \<Rightarrow> l
      | None \<Rightarrow> c)"

definition EqualFold :: "string \<Rightarrow> string \<Rightarrow> bool" where
  "EqualFold s t = (map toLower s = map toLower t)"

subsection \<open>Data: containers, statistics, metric points, log entries\<close>

text \<open>\<^verbatim>\<open>types.Container\<close>, with the fields the collector reads.\<close>

record Container =
  ID :: string
  Names :: "string list"
  State :: string

text \<open>
  \<^verbatim>\<open>types.StatsJSON\<close>, with the fields the collector reads. A Go map is a partial
  function; reading a key that is absent (or reading a nil map) yields the zero value of
  the element type, which is \<open>lookup0\<close> for \<^verbatim>\<open>map[string]uint64\<close> and \<open>lookupNet\<close> for
  \<^verbatim>\<open>map[string]NetworkStats\<close>.
\<close>

record CPUUsage =
  TotalUsage :: u64

record CPUStats =
  CPUUsage :: CPUUsage
  SystemUsage :: u64

record MemoryStats =
  Usage :: u64
  Limit :: u64
  Stats :: "string \<rightharpoonup> u64"

record NetworkStats =
  RxBytes :: u64
  TxBytes :: u64

record BlkioStatEntry =
  Op :: string
  Value :: u64

record BlkioStats =
  IoServiceBytesRecursive :: "BlkioStatEntry list"

record PidsStats =
  Current :: u64

record StatsJSON =
  CPUStats :: CPUStats
  PreCPUStats :: CPUStats
  MemoryStats :: MemoryStats
  BlkioStats :: BlkioStats
  PidsStats :: PidsStats
  Networks :: "string \<rightharpoonup> NetworkStats"

definition lookup0 :: "(string \<rightharpoonup> u64) \<Rightarrow> string \<Rightarrow> u64" where
  "lookup0 m k = (case m k of None \<Rightarrow> 0 | Some v \<Rightarrow> v)"

definition lookupNet :: "(string \<rightharpoonup> NetworkStats) \<Rightarrow> string \<Rightarrow> NetworkStats" where
  "lookupNet m k = (case m k of None \<Rightarrow> \<lparr>RxBytes = 0, TxBytes = 0\<rparr> | Some v \<Rightarrow> v)"

text \<open>
  A metric point is what \<^verbatim>\<open>prometheus.MustNewConstMetric\<close> is given: the name and the help
  text of the descriptor, the value type, the value and the value of the one label
  \<^verbatim>\<open>container_name\<close> (\<^verbatim>\<open>labelCname\<close>). The constructor is taken to succeed: every
  descriptor of the collector has a valid name and one label, every call gives one label
  value, and that value is made of container names, which Docker restricts to ASCII
  letters, digits and a few signs.
\<close>

datatype ValueType = GaugeValue | CounterValue

record MetricPoint =
  name :: string
  helpText :: string
  valueType :: ValueType
  val :: float64
  container_name :: string

definition MustNewConstMetric ::
  "string \<Rightarrow> string \<Rightarrow> ValueType \<Rightarrow> float64 \<Rightarrow> string \<Rightarrow> MetricPoint" where
  "MustNewConstMetric n h t v c =
     \<lparr>name = n, helpText = h, valueType = t, val = v, container_name = c\<rparr>"

text \<open>
  A log entry of logrus: the level, the message and the fields. \<^verbatim>\<open>log.Fatal\<close> writes
  its entry and then ends the process (\<^verbatim>\<open>os.Exit(1)\<close>).
\<close>

datatype Level = WarnLevel | ErrorLevel | FatalLevel

record Entry =
  level :: Level
  message :: string
  data :: "(string \<times> string) list"

definition logError :: "string \<Rightarrow> string \<Rightarrow> Entry" where
  "logError m err = \<lparr>level = ErrorLevel, message = m @ err, data = []\<rparr>"

subsection \<open>The Docker client\<close>

text \<open>
  The collector calls the client twice: \<^verbatim>\<open>ContainerList\<close>, once a cycle, and
  \<^verbatim>\<open>ContainerStats\<close>, once for each running container. Either returns an error or a
  result. The body of a statistics response is given by what the collector does with it:
  \<open>Decode\<close> is the \<^verbatim>\<open>StatsJSON\<close> variable after \<^verbatim>\<open>json.NewDecoder(stats.Body).Decode\<close> has
  run on it, with the error that call returned, if any (after a failed decoding the
  variable holds its zero value or the part that was decoded), and \<open>Close\<close> is the error
  of \<^verbatim>\<open>stats.Body.Close()\<close>, if any.
\<close>

record Body =
  Decode :: "StatsJSON \<times> string option"
  Close :: "string option"

record Client =
  ContainerList :: "string + Container list"
  ContainerStats :: "string \<Rightarrow> string + Body"

subsection \<open>The derived metrics\<close>

text \<open>
  Each function returns the points it sends to the channel, in the order of the sends.
\<close>

text \<open>\<^verbatim>\<open>CPUMetrics\<close> (lines 100 to 120).\<close>

definition cpuDelta :: "StatsJSON \<Rightarrow> u64" where
  "cpuDelta s = TotalUsage (CPUUsage (CPUStats s)) - TotalUsage (CPUUsage (PreCPUStats s))"

definition sysemDelta :: "StatsJSON \<Rightarrow> u64" where
  "sysemDelta s = SystemUsage (CPUStats s) - SystemUsage (PreCPUStats s)"

definition cpuUtilization :: "StatsJSON \<Rightarrow> float64" where
  "cpuUtilization s =
     f64_mul (f64_div (f64_of_u64 (cpuDelta s)) (f64_of_u64 (sysemDelta s))) (Finite 100)"

definition CPUMetrics :: "StatsJSON \<Rightarrow> string \<Rightarrow> MetricPoint list" where
  "CPUMetrics s cName =
     [MustNewConstMetric ''dex_cpu_utilization_percent'' ''CPU utilization in percent''
        GaugeValue (cpuUtilization s) cName,
      MustNewConstMetric ''dex_cpu_utilization_seconds_total''
        ''Cumulative CPU utilization in seconds''
        CounterValue
        (f64_div (f64_of_u64 (TotalUsage (CPUUsage (CPUStats s)))) (Finite 1000000000))
        cName]"

text \<open>\<^verbatim>\<open>networkMetrics\<close> (lines 122 to 135).\<close>

definition networkMetrics :: "StatsJSON \<Rightarrow> string \<Rightarrow> MetricPoint list" where
  "networkMetrics s cName =
     [MustNewConstMetric ''dex_network_rx_bytes'' ''Network received bytes total''
        CounterValue (f64_of_u64 (RxBytes (lookupNet (Networks s) ''eth0''))) cName,
      MustNewConstMetric ''dex_network_tx_bytes'' ''Network sent bytes total''
        CounterValue (f64_of_u64 (TxBytes (lookupNet (Networks s) ''eth0''))) cName]"

text \<open>
  \<^verbatim>\<open>memoryMetrics\<close> (lines 137 to 189). The two tests of lines 154 to 161 run one after
  the other, so that the second assignment overwrites the first; the name stays the empty
  string when neither key is there, and line 167 then reads the map at the empty string.
\<close>

definition isCgroupV1 :: "StatsJSON \<Rightarrow> bool" where
  "isCgroupV1 s = (Stats (MemoryStats s) ''cache'' \<noteq> None)"

definition isCgroupV2 :: "StatsJSON \<Rightarrow> bool" where
  "isCgroupV2 s = (Stats (MemoryStats s) ''file'' \<noteq> None)"

definition kernelDiskCacheKeyName :: "StatsJSON \<Rightarrow> string" where
  "kernelDiskCacheKeyName s =
     (let k = [];
          k = (if isCgroupV1 s then ''cache'' else k);
          k = (if isCgroupV2 s then ''file'' else k)
      in k)"

definition memoryWarning :: "string \<Rightarrow> Entry" where
  \<open>memoryWarning cName =
     \<lparr>level = WarnLevel,
      message = ''could not find "cache" stat (cgroup v1) nor "file" stat (cgroup v2)'',
      data = [(''container'', cName)]\<rparr>\<close>

definition memoryUsage :: "StatsJSON \<Rightarrow> u64" where
  "memoryUsage s =
     Usage (MemoryStats s) - lookup0 (Stats (MemoryStats s)) (kernelDiskCacheKeyName s)"

definition memoryTotal :: "StatsJSON \<Rightarrow> u64" where
  "memoryTotal s = Limit (MemoryStats s)"

definition memoryUtilization :: "StatsJSON \<Rightarrow> float64" where
  "memoryUtilization s =
     f64_mul (f64_div (f64_of_u64 (memoryUsage s)) (f64_of_u64 (memoryTotal s))) (Finite 100)"

definition memoryMetrics :: "StatsJSON \<Rightarrow> string \<Rightarrow> MetricPoint list \<times> Entry list" where
  "memoryMetrics s cName =
     ([MustNewConstMetric ''dex_memory_usage_bytes'' ''Total memory usage bytes''
         CounterValue (f64_of_u64 (memoryUsage s)) cName,
       MustNewConstMetric ''dex_memory_total_bytes'' ''Total memory bytes''
         CounterValue (f64_of_u64 (memoryTotal s)) cName,
       MustNewConstMetric ''dex_memory_utilization_percent'' ''Memory utilization percent''
         GaugeValue (memoryUtilization s) cName],
      (if \<not> isCgroupV1 s \<and> \<not> isCgroupV2 s then [memoryWarning cName] else []))"

text \<open>
  \<^verbatim>\<open>blockIoMetrics\<close> (lines 191 to 215). The loop of lines 193 to 200 carries the pair
  \<^verbatim>\<open>(readTotal, writeTotal)\<close>, which starts at zero.
\<close>

fun blockIoLoop :: "BlkioStatEntry list \<Rightarrow> u64 \<times> u64 \<Rightarrow> u64 \<times> u64" where
  "blockIoLoop [] (readTotal, writeTotal) = (readTotal, writeTotal)"
| "blockIoLoop (b # bs) (readTotal, writeTotal) =
     blockIoLoop bs
       (if EqualFold (Op b) ''read'' then readTotal + Value b else readTotal,
        if EqualFold (Op b) ''write'' then writeTotal + Value b else writeTotal)"

definition readTotal :: "StatsJSON \<Rightarrow> u64" where
  "readTotal s = fst (blockIoLoop (IoServiceBytesRecursive (BlkioStats s)) (0, 0))"

definition writeTotal :: "StatsJSON \<Rightarrow> u64" where
  "writeTotal s = snd (blockIoLoop (IoServiceBytesRecursive (BlkioStats s)) (0, 0))"

definition blockIoMetrics :: "StatsJSON \<Rightarrow> string \<Rightarrow> MetricPoint list" where
  "blockIoMetrics s cName =
     [MustNewConstMetric ''dex_block_io_read_bytes'' ''Block I/O read bytes''
        CounterValue (f64_of_u64 (readTotal s)) cName,
      MustNewConstMetric ''dex_block_io_write_bytes'' ''Block I/O write bytes''
        CounterValue (f64_of_u64 (writeTotal s)) cName]"

text \<open>\<^verbatim>\<open>pidsMetrics\<close> (lines 217 to 224).\<close>

definition pidsMetrics :: "StatsJSON \<Rightarrow> string \<Rightarrow> MetricPoint list" where
  "pidsMetrics s cName =
     [MustNewConstMetric ''dex_pids_current'' ''Current number of pids in the cgroup''
        CounterValue (f64_of_u64 (Current (PidsStats s))) cName]"

subsection \<open>One container, and the cycle\<close>

text \<open>
  \<^verbatim>\<open>processContainer\<close> (lines 56 to 98) returns what it has done when it ends: the points
  it sent to the channel, in order, the log entries it wrote, and whether it ended the
  process (\<^verbatim>\<open>log.Fatal\<close>, line 76). The decoding error of line 80 is logged and the
  function goes on with the variable as the decoder left it; there is no \<^verbatim>\<open>return\<close> and no
  \<^verbatim>\<open>else\<close> between line 82 and the five calls of lines 87 to 95.
\<close>

record Emission =
  sent :: "MetricPoint list"
  logged :: "Entry list"
  exited :: bool

definition containerName :: "Container \<Rightarrow> string" where
  "containerName c = TrimPrefix (Join (Names c) '';'') ''/''"

definition isRunning :: "Container \<Rightarrow> float64" where
  "isRunning c = (if State c = ''running'' then Finite 1 else Finite 0)"

definition processContainer :: "Client \<Rightarrow> Container \<Rightarrow> Emission" where
  "processContainer cli c =
     (let cName = containerName c;
          running = [MustNewConstMetric ''dex_container_running''
                       ''1 if docker container is running, 0 otherwise''
                       GaugeValue (isRunning c) cName]
      in if isRunning c = Finite 1 then
           (case ContainerStats cli (ID c) of
              Inl err \<Rightarrow>
                \<lparr>sent = running,
                 logged = [\<lparr>level = FatalLevel, message = err, data = []\<rparr>],
                 exited = True\<rparr>
            | Inr stats \<Rightarrow>
                (let containerStats = fst (Decode stats);
                     decodeLog = (case snd (Decode stats) of
                                    None \<Rightarrow> []
                                  | Some err \<Rightarrow> [logError ''can't read api stats: '' err]);
                     closeLog = (case Close stats of
                                   None \<Rightarrow> []
                                 | Some err \<Rightarrow> [logError ''can't close body: '' err])
                 in \<lparr>sent = running
                            @ blockIoMetrics containerStats cName
                            @ fst (memoryMetrics containerStats cName)
                            @ networkMetrics containerStats cName
                            @ CPUMetrics containerStats cName
                            @ pidsMetrics containerStats cName,
                     logged = decodeLog @ closeLog @ snd (memoryMetrics containerStats cName),
                     exited = False\<rparr>))
         else \<lparr>sent = running, logged = [], exited = False\<rparr>)"

text \<open>
  \<^verbatim>\<open>Collect\<close> (lines 37 to 54) starts one goroutine for each listed container and waits
  for all of them. The goroutines send to the one channel in an order the scheduler
  chooses, so that a cycle is known by the multiset of the points sent and the multiset
  of the entries logged. When a goroutine ends the process, \<^verbatim>\<open>wg.Wait()\<close> never returns
  and the cycle delivers nothing: the outcome is \<open>Exited\<close>.
\<close>

datatype Outcome = Exited | Returned "MetricPoint multiset" "Entry multiset"

definition Collect_cycle :: "Client \<Rightarrow> Outcome" where
  "Collect_cycle cli =
     (case ContainerList cli of
        Inl err \<Rightarrow> Returned {#} {#logError ''can't list containers: '' err#}
      | Inr containers \<Rightarrow>
          (let rs = map (processContainer cli) containers
           in if list_ex exited rs then Exited
              else Returned (mset (concat (map sent rs))) (mset (concat (map logged rs)))))"

subsection \<open>The formulas of the specification\<close>

text \<open>
  The CPU formulas as the specification words them (section 4.2), on the counters of a
  snapshot: \<open>cpuDelta = cpuUsage.total - prevCpuUsage.total\<close>,
  \<open>systemDelta = systemUsage - prevSystemUsage\<close>,
  \<open>cpuUtilizationPercent = cpuDelta / systemDelta * 100.0\<close> and
  \<open>cpuTotalSeconds = cpuUsage.total / 1e9\<close>. The counters are unsigned 64-bit numbers and
  the two results are floats, so the differences are taken on \<^verbatim>\<open>uint64\<close> and the quotients
  and the product on \<^verbatim>\<open>float64\<close>.
\<close>

definition spec_cpuUtilizationPercent :: "u64 \<Rightarrow> u64 \<Rightarrow> u64 \<Rightarrow> u64 \<Rightarrow> float64" where
  "spec_cpuUtilizationPercent cpuTotal prevCpuTotal systemUsage prevSystemUsage =
     (let cpuDelta = cpuTotal - prevCpuTotal;
          systemDelta = systemUsage - prevSystemUsage
      in f64_mul (f64_div (f64_of_u64 cpuDelta) (f64_of_u64 systemDelta)) (Finite 100))"

definition spec_cpuTotalSeconds :: "u64 \<Rightarrow> float64" where
  "spec_cpuTotalSeconds cpuTotal = f64_div (f64_of_u64 cpuTotal) (Finite (10 ^ 9))"

subsection \<open>Concrete snapshots and clients\<close>

text \<open>The zero value of \<^verbatim>\<open>types.StatsJSON\<close>: what \<^verbatim>\<open>var containerStats\<close> of line 78 holds.\<close>

definition zeroStats :: StatsJSON where
  "zeroStats =
     \<lparr>CPUStats = \<lparr>CPUUsage = \<lparr>TotalUsage = 0\<rparr>, SystemUsage = 0\<rparr>,
      PreCPUStats = \<lparr>CPUUsage = \<lparr>TotalUsage = 0\<rparr>, SystemUsage = 0\<rparr>,
      MemoryStats = \<lparr>Usage = 0, Limit = 0, Stats = Map.empty\<rparr>,
      BlkioStats = \<lparr>IoServiceBytesRecursive = []\<rparr>,
      PidsStats = \<lparr>Current = 0\<rparr>,
      Networks = Map.empty\<rparr>"

text \<open>The CPU counters of the example of the specification (section 8).\<close>

definition cpuExampleStats :: StatsJSON where
  "cpuExampleStats =
     zeroStats\<lparr>CPUStats := \<lparr>CPUUsage = \<lparr>TotalUsage = 1100\<rparr>, SystemUsage = 20100\<rparr>,
               PreCPUStats := \<lparr>CPUUsage = \<lparr>TotalUsage = 1000\<rparr>, SystemUsage = 20000\<rparr>\<rparr>"

text \<open>
  A snapshot whose system counter has not moved while the CPU counter has, and whose
  memory limit is zero while the usage is not.
\<close>

definition stalledStats :: StatsJSON where
  "stalledStats =
     zeroStats\<lparr>CPUStats := \<lparr>CPUUsage = \<lparr>TotalUsage = 1100\<rparr>, SystemUsage = 20000\<rparr>,
               PreCPUStats := \<lparr>CPUUsage = \<lparr>TotalUsage = 1000\<rparr>, SystemUsage = 20000\<rparr>,
               MemoryStats := \<lparr>Usage = 100, Limit = 0, Stats = [''file'' \<mapsto> 0]\<rparr>\<rparr>"

text \<open>Memory statistics with both keys, with \<^verbatim>\<open>"cache"\<close> only, and with the empty key only.\<close>

definition bothKeysStats :: StatsJSON where
  "bothKeysStats =
     zeroStats\<lparr>MemoryStats :=
       \<lparr>Usage = 100, Limit = 1000, Stats = [''cache'' \<mapsto> 10, ''file'' \<mapsto> 3]\<rparr>\<rparr>"

definition cacheOnlyStats :: StatsJSON where
  "cacheOnlyStats =
     zeroStats\<lparr>MemoryStats := \<lparr>Usage = 100, Limit = 1000, Stats = [''cache'' \<mapsto> 10]\<rparr>\<rparr>"

definition emptyKeyStats :: StatsJSON where
  "emptyKeyStats =
     zeroStats\<lparr>MemoryStats := \<lparr>Usage = 100, Limit = 1000, Stats = [[] \<mapsto> 5]\<rparr>\<rparr>"

text \<open>Memory statistics whose \<^verbatim>\<open>"cache"\<close> value is larger than the usage.\<close>

definition cacheExceedsUsageStats :: StatsJSON where
  "cacheExceedsUsageStats =
     zeroStats\<lparr>MemoryStats := \<lparr>Usage = 100, Limit = 1000, Stats = [''cache'' \<mapsto> 200]\<rparr>\<rparr>"

text \<open>The block I/O entries of the example of the specification (section 8).\<close>

definition blkioExampleStats :: StatsJSON where
  "blkioExampleStats =
     zeroStats\<lparr>BlkioStats := \<lparr>IoServiceBytesRecursive =
       [\<lparr>Op = ''Read'', Value = 100\<rparr>, \<lparr>Op = ''write'', Value = 50\<rparr>,
        \<lparr>Op = ''Sync'', Value = 9\<rparr>]\<rparr>\<rparr>"

text \<open>Three containers: two running, one that has exited.\<close>

definition web :: Container where
  "web = \<lparr>ID = ''1f'', Names = [''/web''], State = ''running''\<rparr>"

definition db :: Container where
  "db = \<lparr>ID = ''2e'', Names = [''/db''], State = ''running''\<rparr>"

definition job :: Container where
  "job = \<lparr>ID = ''3d'', Names = [''/job''], State = ''exited''\<rparr>"

text \<open>A client whose listing fails.\<close>

definition listFailClient :: Client where
  "listFailClient =
     \<lparr>ContainerList = Inl ''connection refused'',
      ContainerStats = (\<lambda>i. Inl ''connection refused'')\<rparr>"

text \<open>
  A client that lists \<open>web\<close> and \<open>job\<close> and answers the statistics request for \<open>web\<close>
  with a body that decodes.
\<close>

definition healthyClient :: Client where
  "healthyClient =
     \<lparr>ContainerList = Inr [web, job],
      ContainerStats = (\<lambda>i. if i = ''1f''
                              then Inr \<lparr>Decode = (cpuExampleStats, None), Close = None\<rparr>
                              else Inl ''No such container'')\<rparr>"

text \<open>
  A client that lists the two running containers; the statistics request for \<open>db\<close>
  fails, the one for \<open>web\<close> succeeds.
\<close>

definition fetchFailClient :: Client where
  "fetchFailClient =
     \<lparr>ContainerList = Inr [web, db],
      ContainerStats = (\<lambda>i. if i = ''1f''
                              then Inr \<lparr>Decode = (cpuExampleStats, None), Close = None\<rparr>
                              else Inl ''context deadline exceeded'')\<rparr>"

text \<open>
  A client that lists \<open>web\<close> only; the body of its statistics response is not JSON, so
  that the decoder returns an error and leaves the variable at its zero value.
\<close>

definition decodeFailClient :: Client where
  "decodeFailClient =
     \<lparr>ContainerList = Inr [web],
      ContainerStats = (\<lambda>i. Inr \<lparr>Decode = (zeroStats, Some ''unexpected EOF''),
                                   Close = None\<rparr>)\<rparr>"

text \<open>
  A client that lists \<open>job\<close>, which has exited, and \<open>db\<close>, which is running; every
  statistics request fails.
\<close>

definition stoppedAndFailingClient :: Client where
  "stoppedAndFailingClient =
     \<lparr>ContainerList = Inr [job, db],
      ContainerStats = (\<lambda>i. Inl ''context deadline exceeded'')\<rparr>"

section \<open>Properties\<close>

subsection \<open>Rounding to binary64\<close>

lemma pow2_powi: "pow2 k = 2 powi k"
  by (simp add: pow2_def power_int_def field_simps)

lemma pow2_pos: "0 < pow2 k"
  by (simp add: pow2_def)

lemma pow2_mono: "a \<le> b \<Longrightarrow> pow2 a \<le> pow2 b"
  by (simp add: pow2_powi power_int_increasing)

lemma pow2_add: "pow2 (a + b) = pow2 a * pow2 b"
  by (simp add: pow2_powi power_int_add)

lemma round_half_even_of_int: "round_half_even (of_int m) = m"
  by (simp add: round_half_even_def)

lemma round_half_even_ge: "\<lfloor>x\<rfloor> \<le> round_half_even x"
  by (simp add: round_half_even_def Let_def)

lemma round_half_even_le: "of_int (round_half_even x) \<le> x + 1"
  by (simp add: round_half_even_def Let_def) linarith

lemma ilog2_of_int: "0 < n \<Longrightarrow> ilog2 (of_int n) = bitlen n - 1"
  by (simp add: ilog2_def)

lemma pow2_bitlen_le: "0 < n \<Longrightarrow> pow2 (bitlen n - 1) \<le> of_int n"
  using bitlen_bounds[of n] bitlen_nonneg[of n] by (simp add: pow2_def)

lemma round64_pos_of_int:
  assumes "0 < n" "n < 2 ^ 64"
  shows "\<exists>r. round64_pos (of_int n) = Finite r \<and> 0 < r"
proof -
  define e where "e = max (ilog2 (of_int n) - 52) (- 1074)"
  define x where "x = (of_int n :: rat) / pow2 e"
  define m where "m = round_half_even x"
  have bl1: "1 \<le> bitlen n"
    using assms(1) bitlen_eq_zero_iff[of n] bitlen_nonneg[of n] by linarith
  have bl2: "bitlen n \<le> 64"
    using assms(2) by (simp add: bitlen_le_iff_power)
  have e: "e = bitlen n - 53"
    using bl1 assms(1) by (simp add: e_def ilog2_of_int)
  have "pow2 e \<le> pow2 (bitlen n - 1)"
    unfolding e by (rule pow2_mono) simp
  then have pe: "pow2 e \<le> of_int n"
    using pow2_bitlen_le[OF assms(1)] by linarith
  have x1: "1 \<le> x"
    using pe pow2_pos[of e] by (simp add: x_def)
  then have "1 \<le> \<lfloor>x\<rfloor>" by simp
  then have m1: "1 \<le> m"
    using round_half_even_ge[of x] unfolding m_def by linarith
  have pos: "0 < of_int m * pow2 e"
    using m1 pow2_pos[of e] by simp
  have "of_int m * pow2 e \<le> (x + 1) * pow2 e"
    using round_half_even_le[of x] pow2_pos[of e] by (simp add: m_def)
  also have "\<dots> = of_int n + pow2 e"
    using pow2_pos[of e] by (simp add: x_def field_simps)
  also have "\<dots> \<le> of_int n + pow2 11"
    using pow2_mono[of e 11] bl2 by (simp add: e)
  also have "\<dots> < 2 ^ 64 + pow2 11"
  proof -
    have "(of_int n :: rat) < of_int (2 ^ 64)"
      using assms(2) by (simp only: of_int_less_iff)
    then show ?thesis by simp
  qed
  also have "\<dots> < pow2 1024"
    by (simp add: pow2_def)
  finally have "\<not> pow2 1024 \<le> of_int m * pow2 e" by simp
  then show ?thesis
    using pos by (simp add: round64_pos_def Let_def e_def[symmetric] x_def[symmetric] m_def[symmetric])
qed

lemma round64_pos_exact:
  assumes "0 < n" "n < 2 ^ 53"
  shows "round64_pos (of_int n) = Finite (of_int n)"
proof -
  define e where "e = max (ilog2 (of_int n) - 52) (- 1074)"
  have bl1: "1 \<le> bitlen n"
    using assms(1) bitlen_eq_zero_iff[of n] bitlen_nonneg[of n] by linarith
  have bl2: "bitlen n \<le> 53"
    using assms(2) by (simp add: bitlen_le_iff_power)
  have e: "e = bitlen n - 53"
    using bl1 assms(1) by (simp add: e_def ilog2_of_int)
  have "pow2 e * pow2 (- e) = 1"
    using pow2_add[of e "- e"] by (simp add: pow2_def)
  then have inv: "1 / pow2 e = pow2 (- e)"
    using pow2_pos[of e] by (simp add: field_simps)
  have "pow2 (- e) = of_int (2 ^ nat (- e))"
    using bl2 by (simp add: e pow2_def)
  then have p: "1 / pow2 e = of_int (2 ^ nat (- e))"
    using inv by simp
  have "(of_int n :: rat) / pow2 e = of_int n * (1 / pow2 e)"
    by simp
  also have "\<dots> = of_int n * of_int (2 ^ nat (- e))"
    by (simp only: p)
  finally have x: "(of_int n :: rat) / pow2 e = of_int (n * 2 ^ nat (- e))"
    by simp
  have r: "of_int (round_half_even (of_int n / pow2 e)) * pow2 e = (of_int n :: rat)"
    unfolding x round_half_even_of_int using pow2_pos[of e] x by (simp add: field_simps)
  have "(of_int n :: rat) < of_int (2 ^ 53)"
    using assms(2) by (simp only: of_int_less_iff)
  also have "\<dots> < pow2 1024"
    by (simp add: pow2_def)
  finally have "\<not> pow2 1024 \<le> (of_int n :: rat)" by simp
  then show ?thesis
    using r by (simp add: round64_pos_def Let_def e_def[symmetric])
qed

lemma round64_of_pos: "0 < q \<Longrightarrow> round64 q = round64_pos q"
  by (simp add: round64_def)

lemma uint_rat_pos:
  assumes "w \<noteq> 0"
  shows "0 < uint w" and "0 < (of_int (uint w) :: rat)"
proof -
  have "uint w \<noteq> 0"
    using assms by (simp add: uint_0_iff)
  then show "0 < uint w"
    using uint_nonnegative[of w] by linarith
  then show "0 < (of_int (uint w) :: rat)"
    by (simp only: of_int_0_less_iff)
qed

text \<open>
  The conversion of a \<^verbatim>\<open>uint64\<close> is zero for zero and a positive finite number
  otherwise, and it is exact below \<open>2 ^ 53\<close>.
\<close>

lemma f64_of_u64_zero: "f64_of_u64 0 = Finite 0"
  by (simp add: f64_of_u64_def round64_def)

lemma f64_of_u64_pos:
  assumes "w \<noteq> 0"
  shows "\<exists>r. f64_of_u64 w = Finite r \<and> 0 < r"
proof -
  have "uint w < 2 ^ 64"
    using uint_bounded[of w] by simp
  then have "\<exists>r. round64_pos (of_int (uint w)) = Finite r \<and> 0 < r"
    using uint_rat_pos(1)[OF assms] by (rule round64_pos_of_int[rotated])
  then show ?thesis
    unfolding f64_of_u64_def using round64_of_pos[OF uint_rat_pos(2)[OF assms]] by (simp only:)
qed

lemma f64_of_u64_exact:
  assumes "uint w < 2 ^ 53"
  shows "f64_of_u64 w = Finite (of_int (uint w))"
proof (cases "w = 0")
  case True
  then show ?thesis by (simp add: f64_of_u64_zero)
next
  case False
  have "round64_pos (of_int (uint w)) = Finite (of_int (uint w))"
    using uint_rat_pos(1)[OF False] assms by (rule round64_pos_exact)
  then show ?thesis
    unfolding f64_of_u64_def using round64_of_pos[OF uint_rat_pos(2)[OF False]] by (simp only:)
qed

text \<open>The quotient by a zero conversion, times \<^verbatim>\<open>100.0\<close>: NaN or the positive infinity.\<close>

lemma percent_by_zero:
  "f64_mul (f64_div (f64_of_u64 w) (f64_of_u64 0)) (Finite 100) = (if w = 0 then NaN else PosInf)"
proof (cases "w = 0")
  case True
  then show ?thesis by (simp add: f64_of_u64_zero)
next
  case False
  then obtain r where "f64_of_u64 w = Finite r" "0 < r"
    using f64_of_u64_pos by blast
  then show ?thesis
    using False by (simp add: f64_of_u64_zero)
qed

text \<open>Rules that evaluate the float operations on numerals.\<close>

lemma floor_rat_numeral_div: "\<lfloor>numeral a / numeral b :: rat\<rfloor> = numeral a div numeral b"
  by (metis floor_divide_of_int_eq of_int_numeral)

lemma floor_rat_one_div: "\<lfloor>1 / numeral b :: rat\<rfloor> = 1 div numeral b"
  by (metis floor_divide_of_int_eq of_int_numeral of_int_1)

lemma floor_rat_minus_numeral_div:
  "\<lfloor>- (numeral a / numeral b) :: rat\<rfloor> = - numeral a div numeral b"
  by (metis divide_minus_left floor_divide_of_int_eq of_int_neg_numeral of_int_numeral)

lemma floor_rat_minus_one_div: "\<lfloor>- (1 / numeral b) :: rat\<rfloor> = - 1 div numeral b"
  by (metis divide_minus_left floor_divide_of_int_eq of_int_minus of_int_numeral of_int_1)

lemma bitlen_numeral: "bitlen (numeral k) = bitlen (numeral k div 2) + 1"
  by (subst compute_bitlen) simp

lemma bitlen_one: "bitlen 1 = 1"
  by (subst compute_bitlen) simp

lemmas f64_eval =
  f64_of_u64_def round64_def round64_pos_def ilog2_def pow2_def round_half_even_def
  Let_def bitlen_numeral bitlen_one ceiling_def
  floor_rat_numeral_div floor_rat_one_div floor_rat_minus_numeral_div floor_rat_minus_one_div

lemmas stats_eval =
  zeroStats_def cpuExampleStats_def stalledStats_def bothKeysStats_def cacheOnlyStats_def
  emptyKeyStats_def cacheExceedsUsageStats_def blkioExampleStats_def

lemmas metrics_eval =
  blockIoMetrics_def memoryMetrics_def networkMetrics_def CPUMetrics_def pidsMetrics_def
  MustNewConstMetric_def readTotal_def writeTotal_def memoryUsage_def memoryTotal_def
  memoryUtilization_def kernelDiskCacheKeyName_def isCgroupV1_def isCgroupV2_def
  lookup0_def lookupNet_def cpuUtilization_def cpuDelta_def sysemDelta_def
  EqualFold_def toLower_def

lemmas collect_eval =
  Collect_cycle_def processContainer_def isRunning_def containerName_def TrimPrefix_def
  logError_def web_def db_def job_def Let_def

subsection \<open>The cycle\<close>

text \<open>
  The first point a container sends is the one named \<open>dex_container_running\<close>, and it
  is the only point of that name among those the container sends, whatever the
  statistics request does.
\<close>

lemma isRunning_iff: "isRunning c = Finite 1 \<longleftrightarrow> State c = ''running''"
  by (simp add: isRunning_def)

lemma processContainer_running_filter:
  "filter (\<lambda>p. name p = ''dex_container_running'') (sent (processContainer cli c)) =
     [MustNewConstMetric ''dex_container_running''
        ''1 if docker container is running, 0 otherwise''
        GaugeValue (if State c = ''running'' then Finite 1 else Finite 0) (containerName c)]"
  by (simp add: processContainer_def isRunning_def Let_def blockIoMetrics_def
      memoryMetrics_def networkMetrics_def CPUMetrics_def pidsMetrics_def
      MustNewConstMetric_def split: sum.split)

lemma processContainer_not_running:
  "State c \<noteq> ''running'' \<Longrightarrow>
   processContainer cli c =
     \<lparr>sent = [MustNewConstMetric ''dex_container_running''
               ''1 if docker container is running, 0 otherwise''
               GaugeValue (Finite 0) (containerName c)],
      logged = [], exited = False\<rparr>"
  by (simp add: processContainer_def isRunning_def Let_def)

text \<open>
  A statistics request that fails for a running container ends the process, for any
  number of other containers and whatever their requests do.
\<close>

lemma processContainer_fetch_failure:
  "State c = ''running'' \<Longrightarrow> ContainerStats cli (ID c) = Inl err \<Longrightarrow>
   exited (processContainer cli c)"
  by (simp add: processContainer_def isRunning_def Let_def)

lemma Collect_exits_on_fetch_failure:
  assumes "ContainerList cli = Inr cs" "c \<in> set cs" "State c = ''running''"
    "ContainerStats cli (ID c) = Inl err"
  shows "Collect_cycle cli = Exited"
proof -
  have "exited (processContainer cli c)"
    using assms(3,4) by (rule processContainer_fetch_failure)
  then have "list_ex exited (map (processContainer cli) cs)"
    using assms(2) by (auto simp: list_ex_iff)
  then show ?thesis
    using assms(1) by (simp add: Collect_cycle_def)
qed

text \<open>
  The points of a running container whose request was answered do not depend on the
  error of the decoder: they are computed from the variable as the decoder left it.
\<close>

lemma processContainer_answered:
  assumes "State c = ''running''" "ContainerStats cli (ID c) = Inr body"
  shows "sent (processContainer cli c) =
           MustNewConstMetric ''dex_container_running''
             ''1 if docker container is running, 0 otherwise''
             GaugeValue (Finite 1) (containerName c)
           # blockIoMetrics (fst (Decode body)) (containerName c)
           @ fst (memoryMetrics (fst (Decode body)) (containerName c))
           @ networkMetrics (fst (Decode body)) (containerName c)
           @ CPUMetrics (fst (Decode body)) (containerName c)
           @ pidsMetrics (fst (Decode body)) (containerName c)"
    and "\<not> exited (processContainer cli c)"
  using assms by (simp_all add: processContainer_def isRunning_def Let_def)

lemma Collect_running_points:
  assumes "ContainerList cli = Inr cs" "Collect_cycle cli = Returned b l"
  shows "filter_mset (\<lambda>p. name p = ''dex_container_running'') b =
           image_mset (\<lambda>c. MustNewConstMetric ''dex_container_running''
                               ''1 if docker container is running, 0 otherwise''
                               GaugeValue (if State c = ''running'' then Finite 1 else Finite 0)
                               (containerName c))
             (mset cs)"
proof -
  let ?P = "\<lambda>p. name p = ''dex_container_running''"
  let ?rp = "\<lambda>c. MustNewConstMetric ''dex_container_running''
                     ''1 if docker container is running, 0 otherwise''
                     GaugeValue (if State c = ''running'' then Finite 1 else Finite 0)
                     (containerName c)"
  have b: "b = mset (concat (map sent (map (processContainer cli) cs)))"
    using assms by (simp add: Collect_cycle_def Let_def split: if_splits)
  have "filter ?P (concat (map sent (map (processContainer cli) cs))) = map ?rp cs"
    by (induction cs) (simp_all add: processContainer_running_filter)
  then have "mset (filter ?P (concat (map sent (map (processContainer cli) cs)))) = mset (map ?rp cs)"
    by (rule arg_cong)
  then show ?thesis
    unfolding b by simp
qed

text \<open>
  C4: when listing the containers fails, the cycle returns with an empty batch: nothing
  is sent, the process is not ended, and the failure is one log entry of level error.
\<close>

theorem Collect_list_failure:
  assumes "ContainerList cli = Inl err"
  shows "Collect_cycle cli = Returned {#} {#logError ''can't list containers: '' err#}"
  using assms by (simp add: Collect_cycle_def)

theorem Collect_list_failure_witness:
  "ContainerList listFailClient = Inl ''connection refused'' \<and>
   Collect_cycle listFailClient =
     Returned {#} {#logError ''can't list containers: '' ''connection refused''#}"
proof -
  have h: "ContainerList listFailClient = Inl ''connection refused''"
    by (simp add: listFailClient_def)
  from h Collect_list_failure[OF h] show ?thesis
    by (rule conjI)
qed

text \<open>
  C1: two running containers are listed and the statistics request fails for one of
  them. The goroutine of that container sends its \<open>dex_container_running\<close> point, logs at
  level fatal and ends the process; the cycle returns no batch, so neither the points of
  the other container nor the two \<open>dex_container_running\<close> points are delivered.
\<close>

theorem fetch_failure_ends_process:
  "ContainerList fetchFailClient = Inr [web, db] \<and>
   ContainerStats fetchFailClient (ID db) = Inl ''context deadline exceeded'' \<and>
   processContainer fetchFailClient db =
     \<lparr>sent = [MustNewConstMetric ''dex_container_running''
               ''1 if docker container is running, 0 otherwise'' GaugeValue (Finite 1) ''db''],
      logged = [\<lparr>level = FatalLevel, message = ''context deadline exceeded'', data = []\<rparr>],
      exited = True\<rparr> \<and>
   \<not> exited (processContainer fetchFailClient web) \<and>
   Collect_cycle fetchFailClient = Exited"
  by (simp add: fetchFailClient_def collect_eval)

text \<open>
  C2: one running container is listed and the body of its statistics response does not
  decode. The error is logged, and the five functions still run on the zero-valued
  variable: the batch holds the ten derived points of the container, two of them NaN.
\<close>

theorem decode_failure_keeps_derived_points:
  "Collect_cycle decodeFailClient =
     Returned
       {#MustNewConstMetric ''dex_container_running''
           ''1 if docker container is running, 0 otherwise'' GaugeValue (Finite 1) ''web'',
         MustNewConstMetric ''dex_block_io_read_bytes'' ''Block I/O read bytes''
           CounterValue (Finite 0) ''web'',
         MustNewConstMetric ''dex_block_io_write_bytes'' ''Block I/O write bytes''
           CounterValue (Finite 0) ''web'',
         MustNewConstMetric ''dex_memory_usage_bytes'' ''Total memory usage bytes''
           CounterValue (Finite 0) ''web'',
         MustNewConstMetric ''dex_memory_total_bytes'' ''Total memory bytes''
           CounterValue (Finite 0) ''web'',
         MustNewConstMetric ''dex_memory_utilization_percent'' ''Memory utilization percent''
           GaugeValue NaN ''web'',
         MustNewConstMetric ''dex_network_rx_bytes'' ''Network received bytes total''
           CounterValue (Finite 0) ''web'',
         MustNewConstMetric ''dex_network_tx_bytes'' ''Network sent bytes total''
           CounterValue (Finite 0) ''web'',
         MustNewConstMetric ''dex_cpu_utilization_percent'' ''CPU utilization in percent''
           GaugeValue NaN ''web'',
         MustNewConstMetric ''dex_cpu_utilization_seconds_total''
           ''Cumulative CPU utilization in seconds'' CounterValue (Finite 0) ''web'',
         MustNewConstMetric ''dex_pids_current'' ''Current number of pids in the cgroup''
           CounterValue (Finite 0) ''web''#}
       {#logError ''can't read api stats: '' ''unexpected EOF'', memoryWarning ''web''#}"
  by (simp add: decodeFailClient_def collect_eval metrics_eval stats_eval f64_eval)

text \<open>
  What holds of the point \<open>dex_container_running\<close>: a container whose goroutine runs to
  its end sends exactly one, with value 1 when its state is \<open>running\<close> and 0 otherwise
  and with its name as label, whether the statistics request that follows succeeds, fails
  or is answered by a body that does not decode; a container that is not running sends
  this point and nothing else; and the batch of a cycle that returns holds one such point
  for each listed container.
\<close>

lemma running_point_once:
  "filter (\<lambda>p. name p = ''dex_container_running'') (sent (processContainer cli c)) =
     [MustNewConstMetric ''dex_container_running''
        ''1 if docker container is running, 0 otherwise''
        GaugeValue (if State c = ''running'' then Finite 1 else Finite 0) (containerName c)]
   \<and> (State c \<noteq> ''running'' \<longrightarrow>
        sent (processContainer cli c) =
          [MustNewConstMetric ''dex_container_running''
             ''1 if docker container is running, 0 otherwise''
             GaugeValue (Finite 0) (containerName c)])
   \<and> (ContainerList cli = Inr cs \<and> Collect_cycle cli = Returned b l \<longrightarrow>
        filter_mset (\<lambda>p. name p = ''dex_container_running'') b =
          image_mset (\<lambda>c. MustNewConstMetric ''dex_container_running''
                              ''1 if docker container is running, 0 otherwise''
                              GaugeValue (if State c = ''running'' then Finite 1 else Finite 0)
                              (containerName c))
            (mset cs))"
  using processContainer_running_filter[of cli c] processContainer_not_running[of c cli]
    Collect_running_points[of cli cs b l]
  by simp

lemma running_point_once_example:
  "ContainerStats fetchFailClient (ID db) = Inl ''context deadline exceeded'' \<and>
   filter (\<lambda>p. name p = ''dex_container_running'') (sent (processContainer fetchFailClient db)) =
     [MustNewConstMetric ''dex_container_running''
        ''1 if docker container is running, 0 otherwise'' GaugeValue (Finite 1) ''db''] \<and>
   State job \<noteq> ''running'' \<and>
   ContainerList healthyClient = Inr [web, job] \<and>
   Collect_cycle healthyClient =
     Returned
       (mset (sent (processContainer healthyClient web)
              @ sent (processContainer healthyClient job)))
       (mset (logged (processContainer healthyClient web)
              @ logged (processContainer healthyClient job))) \<and>
   sent (processContainer healthyClient job) =
     [MustNewConstMetric ''dex_container_running''
        ''1 if docker container is running, 0 otherwise'' GaugeValue (Finite 0) ''job''] \<and>
   filter_mset (\<lambda>p. name p = ''dex_container_running'')
     (mset (sent (processContainer healthyClient web)
            @ sent (processContainer healthyClient job))) =
     {#MustNewConstMetric ''dex_container_running''
         ''1 if docker container is running, 0 otherwise'' GaugeValue (Finite 1) ''web'',
       MustNewConstMetric ''dex_container_running''
         ''1 if docker container is running, 0 otherwise'' GaugeValue (Finite 0) ''job''#}"
proof -
  let ?B = "mset (sent (processContainer healthyClient web)
                  @ sent (processContainer healthyClient job))"
  let ?L = "mset (logged (processContainer healthyClient web)
                  @ logged (processContainer healthyClient job))"
  have h1: "State job \<noteq> ''running''"
    by (simp add: job_def)
  have h2: "ContainerList healthyClient = Inr [web, job]"
    by (simp add: healthyClient_def)
  have "\<not> exited (processContainer healthyClient web)"
    by (rule processContainer_answered(2)[where body = "\<lparr>Decode = (cpuExampleStats, None), Close = None\<rparr>"])
      (simp_all add: web_def healthyClient_def)
  moreover have "\<not> exited (processContainer healthyClient job)"
    by (simp add: processContainer_not_running[OF h1])
  ultimately have h3: "Collect_cycle healthyClient = Returned ?B ?L"
    by (simp add: Collect_cycle_def h2)
  let ?P = "\<lambda>p. name p = ''dex_container_running''"
  let ?rp = "\<lambda>c. MustNewConstMetric ''dex_container_running''
                     ''1 if docker container is running, 0 otherwise''
                     GaugeValue (if State c = ''running'' then Finite 1 else Finite 0)
                     (containerName c)"
  have names: "containerName web = ''web''" "containerName job = ''job''"
    by (simp_all add: containerName_def TrimPrefix_def web_def job_def)
  have states: "State web = ''running''"
    by (simp add: web_def)
  have i: "image_mset ?rp (mset [web, job]) =
             {#MustNewConstMetric ''dex_container_running''
                 ''1 if docker container is running, 0 otherwise'' GaugeValue (Finite 1) ''web'',
               MustNewConstMetric ''dex_container_running''
                 ''1 if docker container is running, 0 otherwise'' GaugeValue (Finite 0) ''job''#}"
    using h1 by (simp add: names states)
  from running_point_once[of healthyClient job "[web, job]" ?B ?L] h1 h2 h3
  have r: "sent (processContainer healthyClient job) =
             [MustNewConstMetric ''dex_container_running''
                ''1 if docker container is running, 0 otherwise''
                GaugeValue (Finite 0) (containerName job)]"
    and f: "filter_mset ?P ?B = image_mset ?rp (mset [web, job])"
    by blast+
  have h0: "ContainerStats fetchFailClient (ID db) = Inl ''context deadline exceeded''"
    by (simp add: fetchFailClient_def db_def)
  have d: "State db = ''running''" "containerName db = ''db''"
    by (simp_all add: containerName_def TrimPrefix_def db_def)
  from running_point_once[of fetchFailClient db "[]" "{#}" "{#}"]
  have "filter ?P (sent (processContainer fetchFailClient db)) = [?rp db]"
    by blast
  then have g: "filter ?P (sent (processContainer fetchFailClient db)) =
      [MustNewConstMetric ''dex_container_running''
         ''1 if docker container is running, 0 otherwise'' GaugeValue (Finite 1) ''db'']"
    by (simp add: d)
  from h0 g h1 h2 h3 r[unfolded names] f[unfolded i] show ?thesis
    by (intro conjI)
qed

text \<open>
  C3: a container that has exited and a running container are listed, and the statistics
  request of the running one fails. Run to its end, each goroutine sends its one
  \<open>dex_container_running\<close> point, but the goroutine of the running container then ends the
  process (line 76): the cycle returns no batch, so that no \<open>dex_container_running\<close>
  point is delivered for either listed container, the one that is not running included.
\<close>

theorem running_points_lost_on_fetch_failure:
  "ContainerList stoppedAndFailingClient = Inr [job, db] \<and>
   State job = ''exited'' \<and> State db = ''running'' \<and>
   ContainerStats stoppedAndFailingClient (ID db) = Inl ''context deadline exceeded'' \<and>
   processContainer stoppedAndFailingClient job =
     \<lparr>sent = [MustNewConstMetric ''dex_container_running''
               ''1 if docker container is running, 0 otherwise'' GaugeValue (Finite 0) ''job''],
      logged = [], exited = False\<rparr> \<and>
   processContainer stoppedAndFailingClient db =
     \<lparr>sent = [MustNewConstMetric ''dex_container_running''
               ''1 if docker container is running, 0 otherwise'' GaugeValue (Finite 1) ''db''],
      logged = [\<lparr>level = FatalLevel, message = ''context deadline exceeded'', data = []\<rparr>],
      exited = True\<rparr> \<and>
   Collect_cycle stoppedAndFailingClient = Exited"
  by (simp add: stoppedAndFailingClient_def collect_eval)

subsection \<open>Memory\<close>

lemma kernelDiskCacheKeyName_cases:
  "kernelDiskCacheKeyName s =
     (if Stats (MemoryStats s) ''file'' \<noteq> None then ''file''
      else if Stats (MemoryStats s) ''cache'' \<noteq> None then ''cache'' else [])"
  by (simp add: kernelDiskCacheKeyName_def isCgroupV1_def isCgroupV2_def)

text \<open>
  C5, as the code has it: the key \<^verbatim>\<open>"file"\<close> is selected whenever it is present, also when
  \<^verbatim>\<open>"cache"\<close> is present too, and \<^verbatim>\<open>"cache"\<close> is selected only when \<^verbatim>\<open>"file"\<close> is absent; the
  usage reported is the usage minus the value of the selected key, in \<^verbatim>\<open>uint64\<close>.
\<close>

theorem memory_key_selection:
  "(Stats (MemoryStats s) ''file'' = Some v \<longrightarrow>
      kernelDiskCacheKeyName s = ''file'' \<and> memoryUsage s = Usage (MemoryStats s) - v)
   \<and> (Stats (MemoryStats s) ''file'' = None \<and> Stats (MemoryStats s) ''cache'' = Some w \<longrightarrow>
      kernelDiskCacheKeyName s = ''cache'' \<and> memoryUsage s = Usage (MemoryStats s) - w)"
  by (simp add: memoryUsage_def kernelDiskCacheKeyName_cases lookup0_def)

theorem memory_key_selection_witness:
  "Stats (MemoryStats bothKeysStats) ''file'' = Some 3 \<and>
   kernelDiskCacheKeyName bothKeysStats = ''file'' \<and>
   memoryUsage bothKeysStats = 97 \<and>
   Stats (MemoryStats cacheOnlyStats) ''file'' = None \<and>
   Stats (MemoryStats cacheOnlyStats) ''cache'' = Some 10 \<and>
   kernelDiskCacheKeyName cacheOnlyStats = ''cache'' \<and>
   memoryUsage cacheOnlyStats = 90"
proof -
  have b: "Stats (MemoryStats bothKeysStats) ''file'' = Some 3"
    by (simp add: stats_eval)
  have c: "Stats (MemoryStats cacheOnlyStats) ''file'' = None"
    "Stats (MemoryStats cacheOnlyStats) ''cache'' = Some 10"
    by (simp_all add: stats_eval)
  have u: "Usage (MemoryStats bothKeysStats) = 100" "Usage (MemoryStats cacheOnlyStats) = 100"
    by (simp_all add: stats_eval)
  from memory_key_selection[of bothKeysStats 3 0] memory_key_selection[of cacheOnlyStats 0 10]
    b c u
  show ?thesis
    by simp
qed

text \<open>
  The claim C5 as it is worded fails on a snapshot with both keys: the value of
  \<^verbatim>\<open>"file"\<close> is subtracted, not the value of \<^verbatim>\<open>"cache"\<close>.
\<close>

theorem cache_not_preferred:
  "Stats (MemoryStats bothKeysStats) ''cache'' = Some 10 \<and>
   Stats (MemoryStats bothKeysStats) ''file'' = Some 3 \<and>
   Usage (MemoryStats bothKeysStats) = 100 \<and>
   kernelDiskCacheKeyName bothKeysStats \<noteq> ''cache'' \<and>
   memoryUsage bothKeysStats = 97 \<and>
   memoryUsage bothKeysStats \<noteq> Usage (MemoryStats bothKeysStats) - 10"
  by (simp add: stats_eval metrics_eval)

text \<open>
  C8: the memory statistics hold neither \<^verbatim>\<open>"cache"\<close> nor \<^verbatim>\<open>"file"\<close>, but an entry under the
  empty key. The warning is logged and the three points are sent, but line 167 reads
  the map at the empty string, the value the name was declared with, and subtracts what
  it finds there: the usage reported is 95, not the raw usage 100.
\<close>

theorem empty_key_is_subtracted:
  "Stats (MemoryStats emptyKeyStats) ''cache'' = None \<and>
   Stats (MemoryStats emptyKeyStats) ''file'' = None \<and>
   Usage (MemoryStats emptyKeyStats) = 100 \<and>
   memoryUsage emptyKeyStats = 95 \<and>
   memoryMetrics emptyKeyStats ''web'' =
     ([MustNewConstMetric ''dex_memory_usage_bytes'' ''Total memory usage bytes''
         CounterValue (Finite 95) ''web'',
       MustNewConstMetric ''dex_memory_total_bytes'' ''Total memory bytes''
         CounterValue (Finite 1000) ''web'',
       MustNewConstMetric ''dex_memory_utilization_percent'' ''Memory utilization percent''
         GaugeValue (Finite (19 / 2)) ''web''],
      [memoryWarning ''web''])"
  by (simp add: stats_eval metrics_eval f64_eval)

text \<open>
  Without an entry under the empty key, the claim C8 holds: the usage is reported
  unadjusted, the warning is logged and the three points are sent.
\<close>

lemma neither_key_unadjusted:
  assumes "Stats (MemoryStats s) ''cache'' = None" "Stats (MemoryStats s) ''file'' = None"
    "Stats (MemoryStats s) [] = None"
  shows "memoryUsage s = Usage (MemoryStats s)"
    and "memoryMetrics s n =
           ([MustNewConstMetric ''dex_memory_usage_bytes'' ''Total memory usage bytes''
               CounterValue (f64_of_u64 (Usage (MemoryStats s))) n,
             MustNewConstMetric ''dex_memory_total_bytes'' ''Total memory bytes''
               CounterValue (f64_of_u64 (Limit (MemoryStats s))) n,
             MustNewConstMetric ''dex_memory_utilization_percent''
               ''Memory utilization percent'' GaugeValue
               (f64_mul (f64_div (f64_of_u64 (Usage (MemoryStats s)))
                                 (f64_of_u64 (Limit (MemoryStats s)))) (Finite 100)) n],
            [memoryWarning n])"
  using assms
  by (simp_all add: memoryMetrics_def memoryUsage_def memoryTotal_def memoryUtilization_def
      kernelDiskCacheKeyName_cases isCgroupV1_def isCgroupV2_def lookup0_def)

text \<open>
  C10: when the value subtracted at line 167 is larger than the usage, the difference
  wraps around: the usage reported is \<open>2 ^ 64\<close> minus the excess, a positive number, and
  the points \<open>dex_memory_usage_bytes\<close> and \<open>dex_memory_utilization_percent\<close> are sent
  with the conversion of that number to \<^verbatim>\<open>float64\<close>, a positive finite value.
\<close>

theorem memory_usage_wraps:
  assumes "Usage (MemoryStats s) < lookup0 (Stats (MemoryStats s)) (kernelDiskCacheKeyName s)"
  shows "unat (memoryUsage s) =
           2 ^ 64 - (unat (lookup0 (Stats (MemoryStats s)) (kernelDiskCacheKeyName s))
                     - unat (Usage (MemoryStats s)))
         \<and> memoryUsage s \<noteq> 0
         \<and> (\<exists>r. f64_of_u64 (memoryUsage s) = Finite r \<and> 0 < r)
         \<and> fst (memoryMetrics s n) =
             [MustNewConstMetric ''dex_memory_usage_bytes'' ''Total memory usage bytes''
                CounterValue (f64_of_u64 (memoryUsage s)) n,
              MustNewConstMetric ''dex_memory_total_bytes'' ''Total memory bytes''
                CounterValue (f64_of_u64 (Limit (MemoryStats s))) n,
              MustNewConstMetric ''dex_memory_utilization_percent''
                ''Memory utilization percent'' GaugeValue
                (f64_mul (f64_div (f64_of_u64 (memoryUsage s))
                                  (f64_of_u64 (Limit (MemoryStats s)))) (Finite 100)) n]"
proof -
  let ?u = "Usage (MemoryStats s)"
  let ?c = "lookup0 (Stats (MemoryStats s)) (kernelDiskCacheKeyName s)"
  have lt: "unat ?u < unat ?c"
    using assms by (simp add: word_less_nat_alt)
  have bd: "unat ?c < 2 ^ 64"
    using unsigned_less[of ?c, where 'a = nat] by simp
  have "unat (memoryUsage s) = unat ?u + 2 ^ 64 - unat ?c"
    using lt by (simp add: memoryUsage_def unat_sub_if_size word_size)
  then have u: "unat (memoryUsage s) = 2 ^ 64 - (unat ?c - unat ?u)"
    using lt bd by simp
  then have nz: "memoryUsage s \<noteq> 0"
    using lt bd by (auto simp: unat_eq_0)
  from u nz f64_of_u64_pos[OF nz] show ?thesis
    by (simp add: memoryMetrics_def memoryTotal_def memoryUtilization_def)
qed

theorem memory_usage_wraps_witness:
  "Usage (MemoryStats cacheExceedsUsageStats)
     < lookup0 (Stats (MemoryStats cacheExceedsUsageStats))
         (kernelDiskCacheKeyName cacheExceedsUsageStats) \<and>
   unat (memoryUsage cacheExceedsUsageStats) = 18446744073709551516 \<and>
   memoryUsage cacheExceedsUsageStats \<noteq> 0"
proof -
  have v: "lookup0 (Stats (MemoryStats cacheExceedsUsageStats))
             (kernelDiskCacheKeyName cacheExceedsUsageStats) = 200"
    "Usage (MemoryStats cacheExceedsUsageStats) = 100"
    by (simp_all add: stats_eval metrics_eval)
  have h: "Usage (MemoryStats cacheExceedsUsageStats)
             < lookup0 (Stats (MemoryStats cacheExceedsUsageStats))
                 (kernelDiskCacheKeyName cacheExceedsUsageStats)"
    unfolding v by simp
  from memory_usage_wraps[OF h, of "''web''"]
  have "unat (memoryUsage cacheExceedsUsageStats) =
          2 ^ 64 - (unat (lookup0 (Stats (MemoryStats cacheExceedsUsageStats))
                            (kernelDiskCacheKeyName cacheExceedsUsageStats))
                    - unat (Usage (MemoryStats cacheExceedsUsageStats)))"
    and nz: "memoryUsage cacheExceedsUsageStats \<noteq> 0"
    by blast+
  then have "unat (memoryUsage cacheExceedsUsageStats) = 18446744073709551516"
    unfolding v by simp
  with h nz show ?thesis
    by (intro conjI)
qed

subsection \<open>Percentages with a zero denominator\<close>

text \<open>
  C6, as the code has it: no test guards the two divisions. When the system counter has
  not moved, the point \<open>dex_cpu_utilization_percent\<close> is still sent, with the value of
  the \<^verbatim>\<open>float64\<close> division by zero: NaN when the CPU counter has not moved either, the
  positive infinity otherwise. When the memory limit is zero, the point
  \<open>dex_memory_utilization_percent\<close> is still sent, with NaN when the usage reported is
  zero and the positive infinity otherwise. No division of \<^verbatim>\<open>float64\<close> is a run-time
  fault, so both functions return their points.
\<close>

theorem zero_denominator_unguarded:
  "(sysemDelta s = 0 \<longrightarrow>
      CPUMetrics s n =
        [MustNewConstMetric ''dex_cpu_utilization_percent'' ''CPU utilization in percent''
           GaugeValue (if cpuDelta s = 0 then NaN else PosInf) n,
         MustNewConstMetric ''dex_cpu_utilization_seconds_total''
           ''Cumulative CPU utilization in seconds'' CounterValue
           (f64_div (f64_of_u64 (TotalUsage (CPUUsage (CPUStats s)))) (Finite 1000000000)) n])
   \<and> (Limit (MemoryStats s) = 0 \<longrightarrow>
      fst (memoryMetrics s n) =
        [MustNewConstMetric ''dex_memory_usage_bytes'' ''Total memory usage bytes''
           CounterValue (f64_of_u64 (memoryUsage s)) n,
         MustNewConstMetric ''dex_memory_total_bytes'' ''Total memory bytes''
           CounterValue (Finite 0) n,
         MustNewConstMetric ''dex_memory_utilization_percent'' ''Memory utilization percent''
           GaugeValue (if memoryUsage s = 0 then NaN else PosInf) n])"
proof -
  have cpu: "cpuUtilization s = (if cpuDelta s = 0 then NaN else PosInf)" if "sysemDelta s = 0"
    using that by (simp only: cpuUtilization_def percent_by_zero)
  have mem: "memoryUtilization s = (if memoryUsage s = 0 then NaN else PosInf)"
    if "Limit (MemoryStats s) = 0"
    using that by (simp only: memoryUtilization_def memoryTotal_def percent_by_zero)
  show ?thesis
    by (simp add: CPUMetrics_def memoryMetrics_def memoryTotal_def f64_of_u64_zero cpu mem)
qed

theorem zero_denominator_unguarded_witness:
  "sysemDelta stalledStats = 0 \<and>
   Limit (MemoryStats stalledStats) = 0 \<and>
   hd (CPUMetrics stalledStats ''web'') =
     MustNewConstMetric ''dex_cpu_utilization_percent'' ''CPU utilization in percent''
       GaugeValue PosInf ''web'' \<and>
   fst (memoryMetrics stalledStats ''web'') =
     [MustNewConstMetric ''dex_memory_usage_bytes'' ''Total memory usage bytes''
        CounterValue (f64_of_u64 (memoryUsage stalledStats)) ''web'',
      MustNewConstMetric ''dex_memory_total_bytes'' ''Total memory bytes''
        CounterValue (Finite 0) ''web'',
      MustNewConstMetric ''dex_memory_utilization_percent'' ''Memory utilization percent''
        GaugeValue PosInf ''web'']"
proof -
  have h: "sysemDelta stalledStats = 0" "Limit (MemoryStats stalledStats) = 0"
    by (simp_all add: stats_eval metrics_eval)
  have d: "cpuDelta stalledStats \<noteq> 0" "memoryUsage stalledStats \<noteq> 0"
    by (simp_all add: stats_eval metrics_eval)
  from zero_denominator_unguarded[of stalledStats "''web''"] h d show ?thesis
    by simp
qed

text \<open>
  The claim C6 as it is worded fails: two snapshots whose system counter has not moved
  get two different values, the positive infinity and NaN, neither of them a value set
  by a guard, and the point is sent in both cases.
\<close>

theorem zero_denominator_not_guarded:
  "sysemDelta stalledStats = 0 \<and> sysemDelta zeroStats = 0 \<and>
   Limit (MemoryStats stalledStats) = 0 \<and>
   CPUMetrics stalledStats ''web'' =
     [MustNewConstMetric ''dex_cpu_utilization_percent'' ''CPU utilization in percent''
        GaugeValue PosInf ''web'',
      MustNewConstMetric ''dex_cpu_utilization_seconds_total''
        ''Cumulative CPU utilization in seconds'' CounterValue
        (Finite (2597301565578305 / 2361183241434822606848)) ''web''] \<and>
   CPUMetrics zeroStats ''web'' =
     [MustNewConstMetric ''dex_cpu_utilization_percent'' ''CPU utilization in percent''
        GaugeValue NaN ''web'',
      MustNewConstMetric ''dex_cpu_utilization_seconds_total''
        ''Cumulative CPU utilization in seconds'' CounterValue (Finite 0) ''web''] \<and>
   fst (memoryMetrics stalledStats ''web'') =
     [MustNewConstMetric ''dex_memory_usage_bytes'' ''Total memory usage bytes''
        CounterValue (Finite 100) ''web'',
      MustNewConstMetric ''dex_memory_total_bytes'' ''Total memory bytes''
        CounterValue (Finite 0) ''web'',
      MustNewConstMetric ''dex_memory_utilization_percent'' ''Memory utilization percent''
        GaugeValue PosInf ''web'']"
  by (simp add: stats_eval metrics_eval f64_eval)

subsection \<open>CPU\<close>

text \<open>
  C7: the two points of \<^verbatim>\<open>CPUMetrics\<close> carry the values of the formulas of the
  specification, the differences taken on \<^verbatim>\<open>uint64\<close> and the quotients on \<^verbatim>\<open>float64\<close>, with
  the name of the container as label; on the counters 1100, 1000, 20100 and 20000 the
  utilization is 100.
\<close>

theorem cpu_points_follow_formulas:
  "CPUMetrics s n =
     [MustNewConstMetric ''dex_cpu_utilization_percent'' ''CPU utilization in percent''
        GaugeValue
        (spec_cpuUtilizationPercent
           (TotalUsage (CPUUsage (CPUStats s))) (TotalUsage (CPUUsage (PreCPUStats s)))
           (SystemUsage (CPUStats s)) (SystemUsage (PreCPUStats s))) n,
      MustNewConstMetric ''dex_cpu_utilization_seconds_total''
        ''Cumulative CPU utilization in seconds'' CounterValue
        (spec_cpuTotalSeconds (TotalUsage (CPUUsage (CPUStats s)))) n]
   \<and> spec_cpuUtilizationPercent 1100 1000 20100 20000 = Finite 100
   \<and> cpuUtilization cpuExampleStats = Finite 100"
  by (simp add: CPUMetrics_def cpuUtilization_def cpuDelta_def sysemDelta_def
      spec_cpuUtilizationPercent_def spec_cpuTotalSeconds_def stats_eval f64_eval)

subsection \<open>Block I/O\<close>

text \<open>The loop adds to its two accumulators the values of the entries it selects.\<close>

lemma blockIoLoop_sums:
  "blockIoLoop bs (r, w) =
     (r + sum_list (map Value (filter (\<lambda>b. EqualFold (Op b) ''read'') bs)),
      w + sum_list (map Value (filter (\<lambda>b. EqualFold (Op b) ''write'') bs)))"
  by (induction bs arbitrary: r w) (simp_all add: add.assoc)

text \<open>A sum of \<^verbatim>\<open>uint64\<close> values is the sum of the numbers modulo \<open>2 ^ 64\<close>.\<close>

lemma unat_sum_list:
  "unat (sum_list (ws :: u64 list)) = sum_list (map unat ws) mod 2 ^ 64"
proof (induction ws)
  case Nil
  then show ?case by simp
next
  case (Cons w ws)
  have "unat (w + sum_list ws) = (unat w + unat (sum_list ws)) mod 2 ^ 64"
    by (simp add: unat_word_ariths)
  also have "\<dots> = (unat w + sum_list (map unat ws) mod 2 ^ 64) mod 2 ^ 64"
    by (simp only: Cons.IH)
  also have "\<dots> = (unat w + sum_list (map unat ws)) mod 2 ^ 64"
    by (rule mod_add_right_eq)
  finally show ?case by simp
qed

text \<open>
  The comparison of \<^verbatim>\<open>EqualFold\<close> with \<^verbatim>\<open>"read"\<close> accepts the sixteen spellings of the word
  in capitals and small letters, and nothing else.
\<close>

lemma toLower_eq_iff:
  "toLower c = CHR ''r'' \<longleftrightarrow> c = CHR ''r'' \<or> c = CHR ''R''"
  "toLower c = CHR ''e'' \<longleftrightarrow> c = CHR ''e'' \<or> c = CHR ''E''"
  "toLower c = CHR ''a'' \<longleftrightarrow> c = CHR ''a'' \<or> c = CHR ''A''"
  "toLower c = CHR ''d'' \<longleftrightarrow> c = CHR ''d'' \<or> c = CHR ''D''"
  by (auto simp: toLower_def)

lemma EqualFold_read:
  "EqualFold x ''read'' \<longleftrightarrow>
     (\<exists>r e a d. x = [r, e, a, d] \<and> r \<in> {CHR ''r'', CHR ''R''} \<and> e \<in> {CHR ''e'', CHR ''E''}
        \<and> a \<in> {CHR ''a'', CHR ''A''} \<and> d \<in> {CHR ''d'', CHR ''D''})"
proof -
  have "EqualFold x ''read'' \<longleftrightarrow> map toLower x = ''read''"
    by (simp add: EqualFold_def toLower_def)
  also have "\<dots> \<longleftrightarrow> (\<exists>r e a d. x = [r, e, a, d] \<and> toLower r = CHR ''r'' \<and> toLower e = CHR ''e''
        \<and> toLower a = CHR ''a'' \<and> toLower d = CHR ''d'')"
    by (auto simp: map_eq_Cons_conv)
  finally show ?thesis
    by (simp add: toLower_eq_iff)
qed

text \<open>
  C9: \<open>readTotal\<close> is the sum of the values of the entries whose operation equals
  \<^verbatim>\<open>"read"\<close> up to the case of its letters, \<open>writeTotal\<close> the sum of those whose operation so
  equals \<^verbatim>\<open>"write"\<close>, and no other entry counts; the sums are those of \<^verbatim>\<open>uint64\<close>, the sums
  of the numbers modulo \<open>2 ^ 64\<close>. On the entries \<open>Read\<close> 100, \<open>write\<close> 50, \<open>Sync\<close> 9 the
  totals are 100 and 50.
\<close>

theorem block_io_totals:
  "readTotal s =
     sum_list (map Value (filter (\<lambda>b. EqualFold (Op b) ''read'')
                            (IoServiceBytesRecursive (BlkioStats s))))
   \<and> writeTotal s =
     sum_list (map Value (filter (\<lambda>b. EqualFold (Op b) ''write'')
                            (IoServiceBytesRecursive (BlkioStats s))))
   \<and> unat (readTotal s) =
     sum_list (map (\<lambda>b. unat (Value b)) (filter (\<lambda>b. EqualFold (Op b) ''read'')
                            (IoServiceBytesRecursive (BlkioStats s)))) mod 2 ^ 64
   \<and> unat (writeTotal s) =
     sum_list (map (\<lambda>b. unat (Value b)) (filter (\<lambda>b. EqualFold (Op b) ''write'')
                            (IoServiceBytesRecursive (BlkioStats s)))) mod 2 ^ 64
   \<and> blockIoMetrics s n =
     [MustNewConstMetric ''dex_block_io_read_bytes'' ''Block I/O read bytes''
        CounterValue (f64_of_u64 (readTotal s)) n,
      MustNewConstMetric ''dex_block_io_write_bytes'' ''Block I/O write bytes''
        CounterValue (f64_of_u64 (writeTotal s)) n]
   \<and> IoServiceBytesRecursive (BlkioStats blkioExampleStats) =
     [\<lparr>Op = ''Read'', Value = 100\<rparr>, \<lparr>Op = ''write'', Value = 50\<rparr>, \<lparr>Op = ''Sync'', Value = 9\<rparr>]
   \<and> readTotal blkioExampleStats = 100
   \<and> writeTotal blkioExampleStats = 50"
proof -
  let ?bs = "IoServiceBytesRecursive (BlkioStats s)"
  have r: "readTotal s = sum_list (map Value (filter (\<lambda>b. EqualFold (Op b) ''read'') ?bs))"
    by (simp add: readTotal_def blockIoLoop_sums)
  have w: "writeTotal s = sum_list (map Value (filter (\<lambda>b. EqualFold (Op b) ''write'') ?bs))"
    by (simp add: writeTotal_def blockIoLoop_sums)
  have ur: "unat (readTotal s) =
      sum_list (map (\<lambda>b. unat (Value b)) (filter (\<lambda>b. EqualFold (Op b) ''read'') ?bs)) mod 2 ^ 64"
    unfolding r unat_sum_list by (simp add: comp_def)
  have uw: "unat (writeTotal s) =
      sum_list (map (\<lambda>b. unat (Value b)) (filter (\<lambda>b. EqualFold (Op b) ''write'') ?bs)) mod 2 ^ 64"
    unfolding w unat_sum_list by (simp add: comp_def)
  have m: "blockIoMetrics s n =
     [MustNewConstMetric ''dex_block_io_read_bytes'' ''Block I/O read bytes''
        CounterValue (f64_of_u64 (readTotal s)) n,
      MustNewConstMetric ''dex_block_io_write_bytes'' ''Block I/O write bytes''
        CounterValue (f64_of_u64 (writeTotal s)) n]"
    by (simp add: blockIoMetrics_def)
  have e: "IoServiceBytesRecursive (BlkioStats blkioExampleStats) =
     [\<lparr>Op = ''Read'', Value = 100\<rparr>, \<lparr>Op = ''write'', Value = 50\<rparr>, \<lparr>Op = ''Sync'', Value = 9\<rparr>]"
    "readTotal blkioExampleStats = 100" "writeTotal blkioExampleStats = 50"
    by (simp_all add: stats_eval metrics_eval)
  from r w ur uw m e show ?thesis
    by (intro conjI)
qed

end
